theory Spec2Isabelle
  imports Complex_Main "HOL-Library.Char_ord" "HOL-Library.List_Lexorder" "HOL-Library.Option_ord"
begin

section \<open>The post page: data model\<close>

text \<open>
  The page module \<^verbatim>\<open>src/pages/post/[slug].tsx\<close> has three exported functions: the
  component \<^verbatim>\<open>Post\<close>, the path enumerator \<^verbatim>\<open>getStaticPaths\<close> and the prop builder
  \<^verbatim>\<open>getStaticProps\<close>. Optional and nullable fields of the TypeScript interfaces are
  \<open>option\<close> values (\<open>None\<close> stands for both \<^verbatim>\<open>undefined\<close> and \<^verbatim>\<open>null\<close>); a read of a
  property of an absent object is the error \<open>TypeError\<close>. Strings are byte lists (UTF-8);
  the space character is one byte that occurs in no multi-byte sequence, so splitting at
  spaces counts the same pieces as on the UTF-16 strings of the source.
\<close>

datatype error = TypeError

subsection \<open>Content blocks\<close>

record body_item =
  text' :: string

record content_item =
  heading :: string
  body :: "body_item list"

subsection \<open>Documents of the content service\<close>

text \<open>
  A document as the content service returns it. Beside the fields the page reads it
  carries an internal id, its type, tags, a language and further data fields; an image
  field carries more than its URL.
\<close>

record image =
  url :: string
  alt :: "string option"
  dimensions :: "nat \<times> nat"

record document_data =
  title :: string
  subtitle :: "string option"
  banner :: "image option"
  author :: "string option"
  content :: "content_item list option"
  other_fields :: "(string \<times> string) list"

record document =
  doc_id :: string
  uid :: "string option"
  doc_type :: string
  href :: string
  tags :: "string list"
  lang :: string
  first_publication_date :: "string option"
  last_publication_date :: "string option"
  data :: document_data

subsection \<open>The content service client\<close>

datatype predicate = At string string

record query_options =
  fetch :: "string list option"
  after :: "string option"
  orderings :: "string option"
  pageSize :: "nat option"
  ref :: "string option"

record query_response =
  results :: "document list"

record client =
  getByUID :: "string \<Rightarrow> string \<Rightarrow> query_options \<Rightarrow> document option"
  query :: "predicate list \<Rightarrow> query_options \<Rightarrow> query_response"

text \<open>The requests a run sends to the content service, in the order it sends them.\<close>

datatype request =
  GetByUID string string query_options
| Query "predicate list" query_options

subsection \<open>Props of the page\<close>

record banner =
  url :: string

record post_data =
  title :: string
  subtitle :: "string option"
  banner :: "banner option"
  author :: "string option"
  content :: "content_item list option"

record post =
  first_publication_date :: "string option"
  last_publication_date :: "string option"
  uid :: "string option"
  data :: post_data

record 's route_params =
  slug :: 's

record 's routed =
  params :: "'s route_params"

record preview_data =
  ref :: "string option"

record static_props_ctx = "string routed" +
  preview :: "bool option"
  previewData :: "preview_data option"

record post_props =
  post :: post
  previousPost :: "post option"
  nextPost :: "post option"
  preview :: bool

record redirect_target =
  destination :: string
  permanent :: bool

record props_bundle =
  props :: post_props
  revalidate :: nat

datatype static_props_result =
  Redirect redirect_target
| Props props_bundle

record static_paths =
  paths :: "string option routed list"
  fallback :: bool

section \<open>The path enumerator\<close>

definition getStaticPaths :: "client \<Rightarrow> request list \<times> static_paths" where
  "getStaticPaths prismic =
     (let predicates = [At ''document.type'' ''posts''];
          options = \<lparr>fetch = Some [], after = None, orderings = None,
                     pageSize = Some 100, query_options.ref = None\<rparr>;
          response = query prismic predicates options
      in ([Query predicates options],
          \<lparr>paths = map (\<lambda>post. \<lparr>params = \<lparr>slug = document.uid post\<rparr>\<rparr>) (results response),
           fallback = True\<rparr>))"

section \<open>The prop builder\<close>

text \<open>
  The route parameter \<^verbatim>\<open>slug\<close> of this dynamic route is a string, on which \<^verbatim>\<open>String\<close> is
  the identity. The content service is taken to answer every request; the second
  component of the result is what the function returns or the error it throws, the first
  the requests sent up to there.
\<close>

definition getStaticProps ::
  "client \<Rightarrow> static_props_ctx \<Rightarrow> request list \<times> (error + static_props_result)" where
  "getStaticProps prismic ctx =
     (let slug = slug (params ctx);
          preview = (case static_props_ctx.preview ctx of None \<Rightarrow> False | Some b \<Rightarrow> b);
          previewData = (case previewData ctx of None \<Rightarrow> \<lparr>preview_data.ref = None\<rparr> | Some pd \<Rightarrow> pd);
          byUID = \<lparr>fetch = None, after = None, orderings = None, pageSize = None,
                   query_options.ref = preview_data.ref previewData\<rparr>
      in case getByUID prismic ''posts'' slug byUID of
           None \<Rightarrow>
             ([GetByUID ''posts'' slug byUID],
              Inr (Redirect \<lparr>destination = ''/'', permanent = False\<rparr>))
         | Some response \<Rightarrow>
             (let predicates = [At ''document.type'' ''posts''];
                  previousOptions =
                    \<lparr>fetch = Some [''posts.title''], after = Some (doc_id response),
                     orderings = Some ''[document.first_publication_date desc]'',
                     pageSize = Some 1, query_options.ref = preview_data.ref previewData\<rparr>;
                  previousResponse = query prismic predicates previousOptions;
                  nextOptions =
                    \<lparr>fetch = Some [''posts.title''], after = Some (doc_id response),
                     orderings = Some ''[document.first_publication_date]'',
                     pageSize = Some 1, query_options.ref = preview_data.ref previewData\<rparr>;
                  nextResponse = query prismic predicates nextOptions
              in ([GetByUID ''posts'' slug byUID,
                   Query predicates previousOptions, Query predicates nextOptions],
                  case document_data.banner (document.data response) of
                    None \<Rightarrow> Inl TypeError
                  | Some responseBanner \<Rightarrow>
                      Inr (Props
                        \<lparr>props =
                           \<lparr>post =
                              \<lparr>first_publication_date = document.first_publication_date response,
                               last_publication_date = document.last_publication_date response,
                               uid = document.uid response,
                               data =
                                 \<lparr>title = document_data.title (document.data response),
                                  subtitle = document_data.subtitle (document.data response),
                                  banner = Some \<lparr>url = image.url responseBanner\<rparr>,
                                  author = document_data.author (document.data response),
                                  content = document_data.content (document.data response)\<rparr>\<rparr>,
                            previousPost =
                              (case results previousResponse of
                                 [] \<Rightarrow> None
                               | first # _ \<Rightarrow>
                                   Some \<lparr>first_publication_date = None,
                                         last_publication_date = None,
                                         uid = document.uid first,
                                         data =
                                           \<lparr>title = document_data.title (document.data first),
                                            subtitle = None, banner = None, author = None,
                                            content = None\<rparr>\<rparr>),
                            nextPost =
                              (case results nextResponse of
                                 [] \<Rightarrow> None
                               | first # _ \<Rightarrow>
                                   Some \<lparr>first_publication_date = None,
                                         last_publication_date = None,
                                         uid = document.uid first,
                                         data =
                                           \<lparr>title = document_data.title (document.data first),
                                            subtitle = None, banner = None, author = None,
                                            content = None\<rparr>\<rparr>),
                            preview = preview\<rparr>,
                         revalidate = 60 * 5\<rparr>))))"

section \<open>The component\<close>

subsection \<open>Numbers and strings of the host language\<close>

text \<open>
  The numbers of the source are IEEE doubles. The counts below stay far under \<open>2^53\<close>,
  where sums of integers are exact and the rounded quotient by 200 has the same ceiling
  as the exact one, so numbers are modelled as rationals: \<^verbatim>\<open>Math.round\<close> is the floor of
  \<open>x + 1/2\<close> and \<^verbatim>\<open>Math.ceil\<close> the ceiling.
\<close>

definition Math_round :: "rat \<Rightarrow> rat" where
  "Math_round x = of_int \<lfloor>x + 1 / 2\<rfloor>"

definition Math_ceil :: "rat \<Rightarrow> rat" where
  "Math_ceil x = of_int \<lceil>x\<rceil>"

text \<open>
  \<^verbatim>\<open>s.split(sep)\<close> for a separator of one character: the pieces between the occurrences
  of the separator, empty pieces included. \<open>cur\<close> holds the piece being read, reversed.
\<close>

fun split_from :: "char \<Rightarrow> string \<Rightarrow> string \<Rightarrow> string list" where
  "split_from sep cur [] = [rev cur]"
| "split_from sep cur (c # cs) =
     (if c = sep then rev cur # split_from sep [] cs else split_from sep (c # cur) cs)"

definition js_split :: "char \<Rightarrow> string \<Rightarrow> string list" where
  "js_split sep s = split_from sep [] s"

text \<open>An absent value inside a template literal prints as \<^verbatim>\<open>undefined\<close>.\<close>

definition template_string :: "string option \<Rightarrow> string" where
  "template_string v = (case v of None \<Rightarrow> ''undefined'' | Some s \<Rightarrow> s)"

subsection \<open>Reading time\<close>

definition wordsPerMinute :: rat where
  "wordsPerMinute = 200"

definition totalWords :: "content_item list \<Rightarrow> rat" where
  "totalWords postContent =
     Math_round
       (foldl
          (\<lambda>acc contentItem.
             acc + of_nat (length (js_split (CHR '' '') (heading contentItem)))
               + foldl
                   (\<lambda>acc2 bodyItem.
                      acc2 + of_nat (length (js_split (CHR '' '') (text' bodyItem))))
                   0 (body contentItem))
          0 postContent)"

definition totalMinutes :: "content_item list \<Rightarrow> rat" where
  "totalMinutes postContent = Math_ceil (totalWords postContent / wordsPerMinute)"

subsection \<open>What the component is given beside its props\<close>

text \<open>
  The router, the date constructor and formatter, the rich-text converter, the object
  hash and the clock are collaborators outside this module; the component is a function
  of them. \<open>getTime rt k\<close> is the reading of the clock taken for the key of the content
  block at position \<open>k\<close>: the source reads the clock once for each block. Every
  collaborator is taken to return a value; an exception raised inside one (by the
  formatter on an invalid date, for one) is outside the model.
\<close>

datatype date_locale = ptBR

record router =
  isFallback :: bool

record keyed_content_item = content_item +
  ts :: int

record 'd runtime =
  useRouter :: router
  newDate :: "string option \<Rightarrow> 'd"
  format :: "'d \<Rightarrow> string \<Rightarrow> date_locale \<Rightarrow> string"
  asHtml :: "body_item list \<Rightarrow> string"
  hash :: "keyed_content_item \<Rightarrow> string"
  getTime :: "nat \<Rightarrow> int"

text \<open>
  \<^verbatim>\<open>new Date().getTime()\<close> returns the time value of the instant of the call: the time
  since the epoch in whole milliseconds. Instants are rationals, in milliseconds;
  \<open>rendered_at rt instants\<close> is the runtime of a render that reads the clock for the content
  block at position \<open>k\<close> at the instant \<open>instants k\<close>. Time values lie within 8.64e15
  milliseconds of the epoch.
\<close>

definition current_time_value :: "rat \<Rightarrow> int" where
  "current_time_value instant = \<lfloor>instant\<rfloor>"


definition rendered_at :: "'d runtime \<Rightarrow> (nat \<Rightarrow> rat) \<Rightarrow> 'd runtime" where
  "rendered_at rt instants = rt\<lparr>getTime := (\<lambda>k. current_time_value (instants k))\<rparr>"

subsection \<open>The rendered page\<close>

record link_view =
  link_href :: string
  className :: string
  link_text :: string
  caption :: string

record navigation_view =
  flexDirection :: string
  previous_link :: "link_view option"
  next_link :: "link_view option"

record content_view =
  key :: string
  h2 :: string
  innerHTML :: string

record page_view =
  head_title :: string
  banner_src :: string
  h1 :: string
  date_label :: string
  author_label :: "string option"
  minutes_label :: rat
  infoUpdate :: string
  content_views :: "content_view list"
  postNavigation :: navigation_view

datatype rendered =
  Loading string
| Page page_view


definition date_pattern :: string where
  "date_pattern = ''dd MMM yyyy''"

text \<open>
  The pattern of the second line, \<^verbatim>\<open>'* editado em 'dd MMM yyyy', \<close>\<open>\<dots>\<close>\<^verbatim>\<open>s 'HH:mm\<close>: the quote is
  the byte 0x27 and the accented letter the two bytes 0xC3 0xA0.
\<close>

definition edited_pattern :: string where
  "edited_pattern =
     [CHR 0x27] @ ''* editado em '' @ [CHR 0x27] @ ''dd MMM yyyy'' @ [CHR 0x27] @ '', ''
       @ [CHR 0xC3, CHR 0xA0] @ ''s '' @ [CHR 0x27] @ ''HH:mm''"

definition Post :: "'d runtime \<Rightarrow> post_props \<Rightarrow> error + rendered" where
  "Post rt p =
     (if isFallback (useRouter rt) then Inr (Loading ''Carregando...'')
      else
        case content (data (post p)) of
          None \<Rightarrow> Inl TypeError
        | Some postContent \<Rightarrow>
            (case banner (data (post p)) of
               None \<Rightarrow> Inl TypeError
             | Some postBanner \<Rightarrow>
                 Inr (Page
                   \<lparr>head_title = title (data (post p)) @ '' | Ignews'',
                    banner_src = url postBanner,
                    h1 = title (data (post p)),
                    date_label =
                      format rt (newDate rt (first_publication_date (post p))) date_pattern ptBR,
                    author_label = author (data (post p)),
                    minutes_label = totalMinutes postContent,
                    infoUpdate =
                      format rt (newDate rt (first_publication_date (post p))) edited_pattern ptBR,
                    content_views =
                      map (\<lambda>(k, contentItem).
                             \<lparr>key = hash rt \<lparr>heading = heading contentItem,
                                              body = body contentItem,
                                              ts = getTime rt k\<rparr>,
                              h2 = heading contentItem,
                              innerHTML = asHtml rt (body contentItem)\<rparr>)
                          (enumerate 0 postContent),
                    postNavigation =
                      \<lparr>flexDirection =
                         (case previousPost p of None \<Rightarrow> ''row-reverse'' | Some _ \<Rightarrow> ''row''),
                       previous_link =
                         (case previousPost p of
                            None \<Rightarrow> None
                          | Some previous \<Rightarrow>
                              Some \<lparr>link_href = ''/post/'' @ template_string (uid previous),
                                    className = ''postAnterior'',
                                    link_text = title (data previous),
                                    caption = ''Post anterior''\<rparr>),
                       next_link =
                         (case nextPost p of
                            None \<Rightarrow> None
                          | Some following \<Rightarrow>
                              Some \<lparr>link_href = ''/post/'' @ template_string (uid following),
                                    className = ''postPosterior'',
                                    link_text = title (data following),
                                    caption = ''Pr'' @ [CHR 0xC3, CHR 0xB3] @ ''ximo post''\<rparr>)\<rparr>\<rparr>)))"

section \<open>A reference content service\<close>

text \<open>
  Modelled from the spec: the content service client that \<^verbatim>\<open>getPrismicClient\<close> returns
  (the module \<^verbatim>\<open>services/prismic\<close> and the client library are not among the sources).
  The specification's section on external interfaces gives \<^verbatim>\<open>query(predicates, options)\<close>,
  returning a paginated result set, and \<^verbatim>\<open>getByUID(type, uid, options)\<close>, returning a
  single document or nothing, with the options \<^verbatim>\<open>pageSize\<close>, \<^verbatim>\<open>after\<close> (a cursor id) and
  \<^verbatim>\<open>orderings\<close> (a sort expression). The service here holds a list of documents; a query
  keeps those that satisfy every predicate, orders them, starts after the cursor and
  cuts the page. The projection by \<^verbatim>\<open>fetch\<close> and the content version \<^verbatim>\<open>ref\<close> do not change
  which documents a page holds and are left out. Publication dates are ISO strings,
  compared as strings.
\<close>

definition satisfies :: "document \<Rightarrow> predicate \<Rightarrow> bool" where
  "satisfies d p = (case p of At path v \<Rightarrow> path = ''document.type'' \<and> doc_type d = v)"

definition ordered_by :: "string option \<Rightarrow> document list \<Rightarrow> document list" where
  "ordered_by ord ds =
     (if ord = Some ''[document.first_publication_date]''
      then sort_key document.first_publication_date ds
      else if ord = Some ''[document.first_publication_date desc]''
      then rev (sort_key document.first_publication_date ds)
      else ds)"

definition after_cursor :: "string option \<Rightarrow> document list \<Rightarrow> document list" where
  "after_cursor cur ds =
     (case cur of None \<Rightarrow> ds | Some i \<Rightarrow> drop 1 (dropWhile (\<lambda>d. doc_id d \<noteq> i) ds))"

definition page :: "nat option \<Rightarrow> document list \<Rightarrow> document list" where
  "page limit ds = take (case limit of None \<Rightarrow> 20 | Some n \<Rightarrow> n) ds"

definition content_service :: "document list \<Rightarrow> client" where
  "content_service store =
     \<lparr>getByUID = (\<lambda>ty u opts. find (\<lambda>d. doc_type d = ty \<and> document.uid d = Some u) store),
      query = (\<lambda>preds opts.
        \<lparr>results =
           page (pageSize opts)
             (after_cursor (after opts)
                (ordered_by (orderings opts)
                   (filter (\<lambda>d. list_all (satisfies d) preds) store)))\<rparr>)\<rparr>"

section \<open>The reading time as the specification words it\<close>

text \<open>
  The specification counts words by splitting at whitespace. The definitions of this
  section follow those words, to be compared with \<open>totalMinutes\<close>: a piece ends at every
  whitespace character (space, tab, line feed, vertical tab, form feed, carriage return).
\<close>

definition whitespace :: "char \<Rightarrow> bool" where
  "whitespace c = (c \<in> {CHR '' '', CHR 0x09, CHR 0x0A, CHR 0x0B, CHR 0x0C, CHR 0x0D})"

fun whitespace_split_from :: "string \<Rightarrow> string \<Rightarrow> string list" where
  "whitespace_split_from cur [] = [rev cur]"
| "whitespace_split_from cur (c # cs) =
     (if whitespace c then rev cur # whitespace_split_from [] cs
      else whitespace_split_from (c # cur) cs)"

definition whitespace_split :: "string \<Rightarrow> string list" where
  "whitespace_split s = whitespace_split_from [] s"

definition whitespace_word_count :: "content_item list \<Rightarrow> nat" where
  "whitespace_word_count postContent =
     (\<Sum>contentItem\<leftarrow>postContent.
        length (whitespace_split (heading contentItem))
          + (\<Sum>bodyItem\<leftarrow>body contentItem. length (whitespace_split (text' bodyItem))))"

definition whitespace_reading_time :: "content_item list \<Rightarrow> rat" where
  "whitespace_reading_time postContent =
     of_int \<lceil>of_int (round (of_nat (whitespace_word_count postContent) :: rat)) / (200 :: rat)\<rceil>"

section \<open>Notions used in the statements\<close>

text \<open>
  The options of the three requests of the prop builder, the reduced view of a neighbour
  (only identifier and title; every other field absent), the listed fields of the found
  document, and what it means for two documents to agree on the fields the page copies.
\<close>

definition by_uid_options :: "static_props_ctx \<Rightarrow> query_options" where
  "by_uid_options ctx =
     \<lparr>fetch = None, after = None, orderings = None, pageSize = None,
      query_options.ref = (case previewData ctx of None \<Rightarrow> None | Some pd \<Rightarrow> preview_data.ref pd)\<rparr>"

definition neighbour_options :: "static_props_ctx \<Rightarrow> document \<Rightarrow> string \<Rightarrow> query_options" where
  "neighbour_options ctx response sort_expr =
     \<lparr>fetch = Some [''posts.title''], after = Some (doc_id response),
      orderings = Some sort_expr, pageSize = Some 1,
      query_options.ref = (case previewData ctx of None \<Rightarrow> None | Some pd \<Rightarrow> preview_data.ref pd)\<rparr>"

definition posts_only :: "predicate list" where
  "posts_only = [At ''document.type'' ''posts'']"

definition enumeration_options :: query_options where
  "enumeration_options =
     \<lparr>fetch = Some [], after = None, orderings = None, pageSize = Some 100,
      query_options.ref = None\<rparr>"

definition neighbour_reference :: "document list \<Rightarrow> post option" where
  "neighbour_reference found =
     (case found of
        [] \<Rightarrow> None
      | d # _ \<Rightarrow>
          Some \<lparr>first_publication_date = None, last_publication_date = None,
                uid = document.uid d,
                data = \<lparr>title = document_data.title (document.data d), subtitle = None,
                        banner = None, author = None, content = None\<rparr>\<rparr>)"

definition listed_fields :: "document \<Rightarrow> string \<Rightarrow> post" where
  "listed_fields d bannerUrl =
     \<lparr>first_publication_date = document.first_publication_date d,
      last_publication_date = document.last_publication_date d,
      uid = document.uid d,
      data = \<lparr>title = document_data.title (document.data d),
              subtitle = document_data.subtitle (document.data d),
              banner = Some \<lparr>url = bannerUrl\<rparr>,
              author = document_data.author (document.data d),
              content = document_data.content (document.data d)\<rparr>\<rparr>"

definition same_listed_fields :: "document \<Rightarrow> document \<Rightarrow> bool" where
  "same_listed_fields d d' =
     (document.uid d = document.uid d'
      \<and> document.first_publication_date d = document.first_publication_date d'
      \<and> document.last_publication_date d = document.last_publication_date d'
      \<and> document_data.title (document.data d) = document_data.title (document.data d')
      \<and> document_data.subtitle (document.data d) = document_data.subtitle (document.data d')
      \<and> document_data.author (document.data d) = document_data.author (document.data d')
      \<and> document_data.content (document.data d) = document_data.content (document.data d')
      \<and> map_option image.url (document_data.banner (document.data d))
          = map_option image.url (document_data.banner (document.data d')))"

definition same_reference :: "document \<Rightarrow> document \<Rightarrow> bool" where
  "same_reference d d' =
     (document.uid d = document.uid d'
      \<and> document_data.title (document.data d) = document_data.title (document.data d'))"

section \<open>Sample data\<close>

text \<open>
  A runtime whose collaborators are simple total functions, and props around a given
  content, used where a statement is instantiated at a concrete input. Its hash is a
  digest of fixed length, sixteen hexadecimal digits: two for the size of the block and
  fourteen for the time value, counted from the least time value.
\<close>

fun hex_digits :: "nat \<Rightarrow> int \<Rightarrow> string" where
  "hex_digits 0 n = []"
| "hex_digits (Suc w) n = (''0123456789abcdef'' ! nat (n mod 16)) # hex_digits w (n div 16)"

definition sample_digest :: "keyed_content_item \<Rightarrow> string" where
  "sample_digest k =
     hex_digits 2 (int (length (heading k) + length (body k)))
       @ hex_digits 14 (ts k + 8640000000000000)"

definition sample_runtime :: "string option runtime" where
  "sample_runtime =
     \<lparr>useRouter = \<lparr>isFallback = False\<rparr>,
      newDate = (\<lambda>d. d),
      format = (\<lambda>d pattern l. pattern @ '' <- '' @ template_string d),
      asHtml = (\<lambda>fragments. concat (map (\<lambda>f. ''<p>'' @ text' f @ ''</p>'') fragments)),
      hash = sample_digest,
      getTime = (\<lambda>k. 7 + int k)\<rparr>"

definition sample_props :: "content_item list \<Rightarrow> post_props" where
  "sample_props postContent =
     \<lparr>post =
        \<lparr>first_publication_date = Some ''2021-03-25T19:25:28+0000'',
         last_publication_date = Some ''2021-04-02T08:00:00+0000'',
         uid = Some ''como-utilizar-hooks'',
         data =
           \<lparr>title = ''Como utilizar Hooks'', subtitle = None,
            banner = Some \<lparr>url = ''https://images.example/banner.png''\<rparr>,
            author = Some ''Joseph Oliveira'', content = Some postContent\<rparr>\<rparr>,
      previousPost = None, nextPost = None, preview = False\<rparr>"

definition words_400 :: "content_item list" where
  "words_400 =
     [\<lparr>heading = ''Proin et varius'',
       body = [\<lparr>text' = concat (replicate 396 ''a '') @ ''a''\<rparr>]\<rparr>]"

definition words_401 :: "content_item list" where
  "words_401 =
     [\<lparr>heading = ''Proin et varius'',
       body = [\<lparr>text' = concat (replicate 396 ''a '') @ ''a''\<rparr>, \<lparr>text' = []\<rparr>]\<rparr>]"

definition tab_separated :: "content_item list" where
  "tab_separated =
     [\<lparr>heading = concat (replicate 200 [CHR ''a'', CHR 0x09]) @ ''a'', body = []\<rparr>]"

definition bare_heading :: "content_item list" where
  "bare_heading = [\<lparr>heading = [], body = []\<rparr>]"

text \<open>
  A store of four posts, one without banner, and a page of another type, served by the
  reference content service; \<open>relabelled\<close> changes fields of a document that the page does
  not copy.
\<close>

definition sample_image :: image where
  "sample_image =
     \<lparr>image.url = ''https://images.example/banner.png'', alt = Some ''capa'',
      dimensions = (1440, 400)\<rparr>"

definition sample_document ::
  "string \<Rightarrow> string \<Rightarrow> string \<Rightarrow> string \<Rightarrow> image option \<Rightarrow> document" where
  "sample_document i ty u published img =
     \<lparr>doc_id = i, document.uid = Some u, doc_type = ty,
      href = ''https://repo.example/api/v2/documents/search?q='' @ i,
      tags = [''react''], lang = ''pt-br'',
      document.first_publication_date = Some published,
      document.last_publication_date = Some published,
      document.data =
        \<lparr>document_data.title = ''Post '' @ u, document_data.subtitle = None,
         document_data.banner = img, document_data.author = None,
         document_data.content = Some [\<lparr>heading = ''Proin et varius'', body = [\<lparr>text' = ''Lorem ipsum dolor''\<rparr>]\<rparr>],
         other_fields = [(''seo_description'', ''...'')]\<rparr>\<rparr>"

definition sample_store :: "document list" where
  "sample_store =
     [sample_document ''YB2'' ''posts'' ''segundo'' ''2021-02-10T12:00:00+0000'' (Some sample_image),
      sample_document ''YP0'' ''about'' ''sobre'' ''2021-02-20T12:00:00+0000'' None,
      sample_document ''YC3'' ''posts'' ''terceiro'' ''2021-03-10T12:00:00+0000'' (Some sample_image),
      sample_document ''YA1'' ''posts'' ''primeiro'' ''2021-01-10T12:00:00+0000'' (Some sample_image),
      sample_document ''YD4'' ''posts'' ''sem-banner'' ''2021-04-10T12:00:00+0000'' None]"

definition sample_ctx :: "string \<Rightarrow> static_props_ctx" where
  "sample_ctx u = \<lparr>params = \<lparr>slug = u\<rparr>, static_props_ctx.preview = None, previewData = None\<rparr>"

definition relabelled :: "document \<Rightarrow> document" where
  "relabelled d =
     d\<lparr>href := ''https://mirror.example/'' @ doc_id d, tags := [], lang := ''en-us'',
       document.data :=
         (document.data d)
           \<lparr>document_data.banner :=
              map_option (\<lambda>img. img\<lparr>alt := None, dimensions := (720, 200)\<rparr>)
                (document_data.banner (document.data d)),
            other_fields := []\<rparr>\<rparr>"




section \<open>Reading time: proofs\<close>

lemma length_split_from: "length (split_from sep cur s) = Suc (count_list s sep)"
  by (induction s arbitrary: cur) simp_all

text \<open>A string splits into one piece more than it has separators.\<close>

lemma length_js_split: "length (js_split sep s) = Suc (count_list s sep)"
  by (simp add: js_split_def length_split_from)

lemma foldl_add_of_nat:
  "foldl (\<lambda>acc x. acc + of_nat (f x)) (a :: rat) xs = a + of_nat (\<Sum>x\<leftarrow>xs. f x)"
  by (induction xs arbitrary: a) simp_all

lemma foldl_blocks:
  "foldl (\<lambda>acc c. acc + of_nat (g c) + foldl (\<lambda>acc2 b. acc2 + of_nat (f b)) 0 (body c)) (a :: rat) cs
     = a + of_nat (\<Sum>c\<leftarrow>cs. g c + (\<Sum>b\<leftarrow>body c. f b))"
  by (induction cs arbitrary: a) (simp_all add: foldl_add_of_nat)

lemma Math_round_of_nat: "Math_round (of_nat n) = of_nat n"
proof -
  have "\<lfloor>(of_nat n :: rat) + 1 / 2\<rfloor> = int n" by linarith
  then show ?thesis by (simp add: Math_round_def)
qed

lemma totalWords_sum:
  "totalWords cs =
     of_nat (\<Sum>c\<leftarrow>cs. length (js_split (CHR '' '') (heading c))
                + (\<Sum>b\<leftarrow>body c. length (js_split (CHR '' '') (text' b))))"
  unfolding totalWords_def foldl_blocks by (simp only: Math_round_of_nat add_0)

lemma totalMinutes_ceiling:
  "totalMinutes cs =
     of_int \<lceil>(of_nat (\<Sum>c\<leftarrow>cs. length (js_split (CHR '' '') (heading c))
                + (\<Sum>b\<leftarrow>body c. length (js_split (CHR '' '') (text' b)))) :: rat) / 200\<rceil>"
  by (simp only: totalMinutes_def Math_ceil_def wordsPerMinute_def totalWords_sum)

lemma ceiling_of_nat_div: "\<lceil>(of_nat n :: rat) / 200\<rceil> = int ((n + 199) div 200)"
proof -
  have "\<lceil>(of_nat n :: rat) / 200\<rceil> = \<lceil>(of_int (int n) :: rat) / of_int 200\<rceil>" by simp
  also have "\<dots> = - ((- int n) div 200)" by (simp only: ceiling_divide_eq_div)
  also have "\<dots> = int ((n + 199) div 200)" by (simp add: zdiv_int)
  finally show ?thesis .
qed

text \<open>Outside the fallback state the component renders whenever content and banner are present.\<close>

lemma Post_renders:
  assumes "\<not> isFallback (useRouter rt)"
    and "content (data (post p)) = Some cs"
    and "banner (data (post p)) = Some b"
  shows "\<exists>v. Post rt p = Inr (Page v) \<and> minutes_label v = totalMinutes cs"
  using assms by (simp add: Post_def)

lemma sample_not_fallback: "\<not> isFallback (useRouter sample_runtime)"
  by (simp add: sample_runtime_def)

lemma sample_content: "content (data (post (sample_props cs))) = Some cs"
  by (simp add: sample_props_def)

lemma sample_banner:
  "banner (data (post (sample_props cs))) = Some \<lparr>url = ''https://images.example/banner.png''\<rparr>"
  by (simp add: sample_props_def)

text \<open>
  Claim C1, as the specification words it, fails: the displayed reading time is not the
  ceiling of the whitespace-split word count over 200. A heading of 201 words separated
  by tab characters holds no space; the component counts it as one piece and shows 1
  minute, where 201 whitespace-separated words give 2.
\<close>

theorem reading_time_whitespace_counterexample:
  "totalMinutes tab_separated = 1 \<and> whitespace_reading_time tab_separated = 2"
  by code_simp

text \<open>
  Claim C1, amended: for every post rendered outside the fallback state, the displayed
  reading time is the ceiling of \<open>W / 200\<close>, where \<open>W\<close> sums, over every content block, the
  number of pieces of its heading and of every body fragment's text when split at the
  single space character (one more than the number of spaces in the string); rounding
  \<open>W\<close> to the nearest integer leaves it unchanged. A total of exactly 400 gives 2 minutes
  and totals of 401 to 600 give 3.
\<close>

theorem reading_time_single_space_split:
  assumes "\<not> isFallback (useRouter rt)"
    and "content (data (post p)) = Some cs"
    and "banner (data (post p)) = Some b"
    and "W = (\<Sum>c\<leftarrow>cs. length (js_split (CHR '' '') (heading c))
                + (\<Sum>f\<leftarrow>body c. length (js_split (CHR '' '') (text' f))))"
  shows "\<exists>v. Post rt p = Inr (Page v)
           \<and> minutes_label v = of_int \<lceil>of_int (round (of_nat W :: rat)) / (200 :: rat)\<rceil>
           \<and> round (of_nat W :: rat) = int W
           \<and> (W = 400 \<longrightarrow> minutes_label v = 2)
           \<and> (400 < W \<and> W \<le> 600 \<longrightarrow> minutes_label v = 3)"
proof -
  from Post_renders [OF assms(1-3)] obtain v
    where v: "Post rt p = Inr (Page v)" and m: "minutes_label v = totalMinutes cs"
    by blast
  have r: "round (of_nat W :: rat) = int W"
    by (metis of_int_of_nat_eq round_of_int)
  have c: "minutes_label v = of_int \<lceil>(of_nat W :: rat) / 200\<rceil>"
    unfolding m assms(4) by (rule totalMinutes_ceiling)
  have d: "minutes_label v = of_nat ((W + 199) div 200)"
    unfolding c ceiling_of_nat_div by simp
  have "minutes_label v = of_int \<lceil>of_int (round (of_nat W :: rat)) / (200 :: rat)\<rceil>"
    unfolding r c by simp
  moreover have "W = 400 \<longrightarrow> minutes_label v = 2"
    unfolding d by auto
  moreover have "400 < W \<and> W \<le> 600 \<longrightarrow> minutes_label v = 3"
  proof
    assume "400 < W \<and> W \<le> 600"
    then have "(W + 199) div 200 = 3" by (intro div_nat_eqI) simp_all
    then show "minutes_label v = 3" unfolding d by simp
  qed
  ultimately show ?thesis using v r by blast
qed

theorem reading_time_single_space_split_witness:
  "(\<exists>v. Post sample_runtime (sample_props words_400) = Inr (Page v) \<and> minutes_label v = 2)
   \<and> (\<exists>v. Post sample_runtime (sample_props words_401) = Inr (Page v) \<and> minutes_label v = 3)"
proof -
  have w400: "(400 :: nat) = (\<Sum>c\<leftarrow>words_400. length (js_split (CHR '' '') (heading c))
                + (\<Sum>f\<leftarrow>body c. length (js_split (CHR '' '') (text' f))))"
    by code_simp
  have w401: "(401 :: nat) = (\<Sum>c\<leftarrow>words_401. length (js_split (CHR '' '') (heading c))
                + (\<Sum>f\<leftarrow>body c. length (js_split (CHR '' '') (text' f))))"
    by code_simp
  from reading_time_single_space_split [OF sample_not_fallback sample_content sample_banner w400]
  have "\<exists>v. Post sample_runtime (sample_props words_400) = Inr (Page v) \<and> minutes_label v = 2"
    by blast
  moreover
  from reading_time_single_space_split [OF sample_not_fallback sample_content sample_banner w401]
  have "\<exists>v. Post sample_runtime (sample_props words_401) = Inr (Page v) \<and> minutes_label v = 3"
    by auto
  ultimately show ?thesis by blast
qed

lemma length_le_sum_list: "(\<And>x. 1 \<le> f x) \<Longrightarrow> length xs \<le> (\<Sum>x\<leftarrow>xs. (f x :: nat))"
proof (induction xs)
  case Nil
  then show ?case by simp
next
  case (Cons x xs)
  have "1 \<le> f x" by (rule Cons.prems)
  moreover have "length xs \<le> (\<Sum>x\<leftarrow>xs. f x)" by (rule Cons.IH) (rule Cons.prems)
  ultimately show ?case by simp
qed

lemma block_words_lower:
  "1 + length (body c)
     \<le> length (js_split (CHR '' '') (heading c))
        + (\<Sum>f\<leftarrow>body c. length (js_split (CHR '' '') (text' f)))"
proof -
  have "length (body c) \<le> (\<Sum>f\<leftarrow>body c. length (js_split (CHR '' '') (text' f)))"
    by (rule length_le_sum_list) (simp add: length_js_split)
  moreover have "1 \<le> length (js_split (CHR '' '') (heading c))"
    by (simp add: length_js_split)
  ultimately show ?thesis by linarith
qed

text \<open>
  Claim C10, as stated, fails in its middle step: a content block contributes two words
  or more only when it has a body fragment. A block with an empty heading and no body
  fragment contributes exactly one word.
\<close>

theorem reading_time_bare_heading_counterexample:
  "totalWords bare_heading = 1 \<and> totalWords bare_heading < 2"
  by (simp add: totalWords_sum bare_heading_def length_js_split)

text \<open>
  Claim C10, amended: for every post whose content array is non-empty, the reading time
  is at least 1 minute. Splitting any string, the empty one included, at the space
  character yields at least one piece, so every content block contributes at least one
  word for its heading and one more for every body fragment; the total is positive and
  its ceiling after the division by 200 is at least 1.
\<close>

theorem reading_time_at_least_one_minute:
  assumes "\<not> isFallback (useRouter rt)"
    and "content (data (post p)) = Some cs"
    and "banner (data (post p)) = Some b"
    and "cs \<noteq> []"
  shows "\<exists>v. Post rt p = Inr (Page v) \<and> 1 \<le> minutes_label v \<and> 0 < totalWords cs
           \<and> (\<forall>s. 1 \<le> length (js_split (CHR '' '') s))
           \<and> (\<forall>c. 1 + length (body c)
                   \<le> length (js_split (CHR '' '') (heading c))
                      + (\<Sum>f\<leftarrow>body c. length (js_split (CHR '' '') (text' f))))"
proof -
  define W where "W = (\<Sum>c\<leftarrow>cs. length (js_split (CHR '' '') (heading c))
                + (\<Sum>f\<leftarrow>body c. length (js_split (CHR '' '') (text' f))))"
  from Post_renders [OF assms(1-3)] obtain v
    where v: "Post rt p = Inr (Page v)" and m: "minutes_label v = totalMinutes cs"
    by blast
  from assms(4) obtain c rest where cs: "cs = c # rest" by (cases cs) auto
  have "1 \<le> length (js_split (CHR '' '') (heading c))
            + (\<Sum>f\<leftarrow>body c. length (js_split (CHR '' '') (text' f)))"
    using block_words_lower [of c] by linarith
  then have W: "1 \<le> W" unfolding W_def cs by simp
  have tw: "totalWords cs = of_nat W" unfolding W_def by (rule totalWords_sum)
  have "minutes_label v = of_int \<lceil>(of_nat W :: rat) / 200\<rceil>"
    unfolding m W_def by (rule totalMinutes_ceiling)
  then have d: "minutes_label v = of_nat ((W + 199) div 200)"
    unfolding ceiling_of_nat_div by simp
  from W have "1 \<le> (W + 199) div 200"
    by (simp add: Suc_le_eq div_greater_zero_iff)
  then have "1 \<le> minutes_label v" unfolding d by simp
  moreover from W have "0 < totalWords cs" unfolding tw by simp
  moreover have "\<forall>s. 1 \<le> length (js_split (CHR '' '') s)" by (simp add: length_js_split)
  ultimately show ?thesis using v block_words_lower by blast
qed

theorem reading_time_at_least_one_minute_witness:
  "\<exists>v. Post sample_runtime (sample_props bare_heading) = Inr (Page v) \<and> 1 \<le> minutes_label v"
proof -
  have "bare_heading \<noteq> []" by (simp add: bare_heading_def)
  from reading_time_at_least_one_minute [OF sample_not_fallback sample_content sample_banner this]
  show ?thesis by blast
qed

section \<open>The prop builder: proofs\<close>

lemma getStaticProps_not_found:
  assumes "getByUID prismic ''posts'' (slug (params ctx)) (by_uid_options ctx) = None"
  shows "getStaticProps prismic ctx =
           ([GetByUID ''posts'' (slug (params ctx)) (by_uid_options ctx)],
            Inr (Redirect \<lparr>destination = ''/'', permanent = False\<rparr>))"
  using assms by (cases "previewData ctx") (simp_all add: getStaticProps_def by_uid_options_def)

lemma getStaticProps_found:
  assumes "getByUID prismic ''posts'' (slug (params ctx)) (by_uid_options ctx) = Some response"
  shows "getStaticProps prismic ctx =
           ([GetByUID ''posts'' (slug (params ctx)) (by_uid_options ctx),
             Query posts_only (neighbour_options ctx response ''[document.first_publication_date desc]''),
             Query posts_only (neighbour_options ctx response ''[document.first_publication_date]'')],
            case document_data.banner (document.data response) of
              None \<Rightarrow> Inl TypeError
            | Some img \<Rightarrow>
                Inr (Props
                  \<lparr>props =
                     \<lparr>post = listed_fields response (image.url img),
                      previousPost = neighbour_reference (results (query prismic posts_only
                         (neighbour_options ctx response ''[document.first_publication_date desc]''))),
                      nextPost = neighbour_reference (results (query prismic posts_only
                         (neighbour_options ctx response ''[document.first_publication_date]''))),
                      preview = (case static_props_ctx.preview ctx of None \<Rightarrow> False | Some b \<Rightarrow> b)\<rparr>,
                   revalidate = 300\<rparr>))"
  using assms
  by (cases "previewData ctx"; cases "document_data.banner (document.data response)")
    (simp_all add: getStaticProps_def by_uid_options_def neighbour_options_def posts_only_def
      neighbour_reference_def listed_fields_def Let_def)

text \<open>
  A redirect is returned exactly when the content service finds no document for the slug.
\<close>

lemma redirect_iff_not_found:
  "(\<exists>r. snd (getStaticProps prismic ctx) = Inr (Redirect r))
     = (getByUID prismic ''posts'' (slug (params ctx)) (by_uid_options ctx) = None)"
proof (cases "getByUID prismic ''posts'' (slug (params ctx)) (by_uid_options ctx)")
  case None
  then show ?thesis by (simp add: getStaticProps_not_found)
next
  case (Some response)
  then show ?thesis
    by (cases "document_data.banner (document.data response)")
      (simp_all add: getStaticProps_found)
qed

lemma sample_document_banner: "document_data.banner (document.data (sample_document i ty u d img)) = img"
  by (simp add: sample_document_def)

lemma sample_document_content:
  "document_data.content (document.data (sample_document i ty u d img))
     = Some [\<lparr>heading = ''Proin et varius'', body = [\<lparr>text' = ''Lorem ipsum dolor''\<rparr>]\<rparr>]"
  by (simp add: sample_document_def)

lemma sample_found_segundo:
  "getByUID (content_service sample_store) ''posts'' (slug (params (sample_ctx ''segundo'')))
     (by_uid_options (sample_ctx ''segundo''))
   = Some (sample_document ''YB2'' ''posts'' ''segundo'' ''2021-02-10T12:00:00+0000'' (Some sample_image))"
  by code_simp

lemma sample_found_primeiro:
  "getByUID (content_service sample_store) ''posts'' (slug (params (sample_ctx ''primeiro'')))
     (by_uid_options (sample_ctx ''primeiro''))
   = Some (sample_document ''YA1'' ''posts'' ''primeiro'' ''2021-01-10T12:00:00+0000'' (Some sample_image))"
  by code_simp

lemma sample_found_sem_banner:
  "getByUID (content_service sample_store) ''posts'' (slug (params (sample_ctx ''sem-banner'')))
     (by_uid_options (sample_ctx ''sem-banner''))
   = Some (sample_document ''YD4'' ''posts'' ''sem-banner'' ''2021-04-10T12:00:00+0000'' None)"
  by code_simp

lemma sample_previous_of_segundo:
  "results (query (content_service sample_store) [At ''document.type'' ''posts'']
     (neighbour_options (sample_ctx ''segundo'')
        (sample_document ''YB2'' ''posts'' ''segundo'' ''2021-02-10T12:00:00+0000'' (Some sample_image))
        ''[document.first_publication_date desc]''))
   = [sample_document ''YA1'' ''posts'' ''primeiro'' ''2021-01-10T12:00:00+0000'' (Some sample_image)]"
  by code_simp

lemma sample_next_of_segundo:
  "results (query (content_service sample_store) [At ''document.type'' ''posts'']
     (neighbour_options (sample_ctx ''segundo'')
        (sample_document ''YB2'' ''posts'' ''segundo'' ''2021-02-10T12:00:00+0000'' (Some sample_image))
        ''[document.first_publication_date]''))
   = [sample_document ''YC3'' ''posts'' ''terceiro'' ''2021-03-10T12:00:00+0000'' (Some sample_image)]"
  by code_simp

lemma sample_previous_of_primeiro:
  "results (query (content_service sample_store) [At ''document.type'' ''posts'']
     (neighbour_options (sample_ctx ''primeiro'')
        (sample_document ''YA1'' ''posts'' ''primeiro'' ''2021-01-10T12:00:00+0000'' (Some sample_image))
        ''[document.first_publication_date desc]''))
   = []"
  by code_simp

lemma sample_relabelled_found:
  "getByUID (content_service (map relabelled sample_store)) ''posts''
     (slug (params (sample_ctx ''segundo''))) (by_uid_options (sample_ctx ''segundo''))
   = Some (relabelled (sample_document ''YB2'' ''posts'' ''segundo'' ''2021-02-10T12:00:00+0000'' (Some sample_image)))"
  by code_simp

text \<open>
  Claim C2 says that a found document always yields a props bundle. The prop builder
  reads \<^verbatim>\<open>response.data.banner.url\<close> unguarded, although the interface declares the
  banner optional: for the stored post without banner the document is found, both
  neighbour queries are sent, and the function throws instead of returning props.
\<close>

theorem found_document_without_banner_throws:
  "getByUID (content_service sample_store) ''posts'' ''sem-banner''
       (by_uid_options (sample_ctx ''sem-banner''))
     = Some (sample_document ''YD4'' ''posts'' ''sem-banner'' ''2021-04-10T12:00:00+0000'' None)
   \<and> length (fst (getStaticProps (content_service sample_store) (sample_ctx ''sem-banner''))) = 3
   \<and> snd (getStaticProps (content_service sample_store) (sample_ctx ''sem-banner''))
     = Inl TypeError"
  by code_simp

text \<open>
  Claim C3: once the main document is found, the prop builder sends exactly two queries
  over documents of type posts, each with page size 1 and the cursor after the found
  document's internal id, the first ordered by first publication date descending, the
  second ascending. In the bundle it returns (it returns one whenever the banner is
  present), \<open>previousPost\<close> is the reduced view of the first result of the first query and
  \<open>nextPost\<close> that of the second; a query without results leaves its field null.
\<close>

theorem neighbour_queries:
  assumes "getByUID prismic ''posts'' (slug (params ctx)) (by_uid_options ctx) = Some response"
    and "previousOptions = neighbour_options ctx response ''[document.first_publication_date desc]''"
    and "nextOptions = neighbour_options ctx response ''[document.first_publication_date]''"
  shows "fst (getStaticProps prismic ctx)
           = [GetByUID ''posts'' (slug (params ctx)) (by_uid_options ctx),
              Query [At ''document.type'' ''posts''] previousOptions,
              Query [At ''document.type'' ''posts''] nextOptions]
         \<and> pageSize previousOptions = Some 1 \<and> pageSize nextOptions = Some 1
         \<and> after previousOptions = Some (doc_id response)
         \<and> after nextOptions = Some (doc_id response)
         \<and> orderings previousOptions = Some ''[document.first_publication_date desc]''
         \<and> orderings nextOptions = Some ''[document.first_publication_date]''
         \<and> (\<forall>img. document_data.banner (document.data response) = Some img \<longrightarrow>
               (\<exists>bundle. snd (getStaticProps prismic ctx) = Inr (Props bundle)))
         \<and> (\<forall>bundle. snd (getStaticProps prismic ctx) = Inr (Props bundle) \<longrightarrow>
               previousPost (props bundle)
                 = neighbour_reference
                     (results (query prismic [At ''document.type'' ''posts''] previousOptions))
               \<and> nextPost (props bundle)
                 = neighbour_reference
                     (results (query prismic [At ''document.type'' ''posts''] nextOptions)))
         \<and> neighbour_reference [] = None"
  unfolding getStaticProps_found [OF assms(1)] assms(2,3)
  by (cases "document_data.banner (document.data response)")
    (simp_all add: posts_only_def neighbour_options_def neighbour_reference_def)

theorem neighbour_queries_witness:
  "length (fst (getStaticProps (content_service sample_store) (sample_ctx ''segundo''))) = 3
   \<and> (\<exists>bundle.
         snd (getStaticProps (content_service sample_store) (sample_ctx ''segundo''))
           = Inr (Props bundle)
         \<and> map_option uid (previousPost (props bundle)) = Some (Some ''primeiro'')
         \<and> map_option uid (nextPost (props bundle)) = Some (Some ''terceiro''))"
proof -
  note t = neighbour_queries [OF sample_found_segundo refl refl]
  have b: "document_data.banner (document.data
      (sample_document ''YB2'' ''posts'' ''segundo'' ''2021-02-10T12:00:00+0000'' (Some sample_image)))
      = Some sample_image"
    by (simp add: sample_document_def)
  from t have "length (fst (getStaticProps (content_service sample_store) (sample_ctx ''segundo''))) = 3"
    by simp
  moreover from t b obtain pb
    where p: "snd (getStaticProps (content_service sample_store) (sample_ctx ''segundo''))
           = Inr (Props pb)"
    by blast
  moreover from t p have "previousPost (props pb)
       = neighbour_reference [sample_document ''YA1'' ''posts'' ''primeiro'' ''2021-01-10T12:00:00+0000'' (Some sample_image)]"
    unfolding sample_previous_of_segundo by blast
  then have "map_option uid (previousPost (props pb)) = Some (Some ''primeiro'')"
    by (simp add: neighbour_reference_def sample_document_def)
  moreover from t p have "nextPost (props pb)
       = neighbour_reference [sample_document ''YC3'' ''posts'' ''terceiro'' ''2021-03-10T12:00:00+0000'' (Some sample_image)]"
    unfolding sample_next_of_segundo by blast
  then have "map_option uid (nextPost (props pb)) = Some (Some ''terceiro'')"
    by (simp add: neighbour_reference_def sample_document_def)
  ultimately show ?thesis by blast
qed

text \<open>
  Claim C4: for a found document whose banner is absent, prop building fails with a
  type error; when the banner is present, subtitle and author are passed through as they
  are, absent or not.
\<close>

theorem banner_absent_fails:
  assumes "getByUID prismic ''posts'' (slug (params ctx)) (by_uid_options ctx) = Some response"
  shows "(document_data.banner (document.data response) = None \<longrightarrow>
            snd (getStaticProps prismic ctx) = Inl TypeError)
         \<and> (\<forall>img. document_data.banner (document.data response) = Some img \<longrightarrow>
               (\<exists>bundle. snd (getStaticProps prismic ctx) = Inr (Props bundle)
                  \<and> subtitle (data (post (props bundle)))
                      = document_data.subtitle (document.data response)
                  \<and> author (data (post (props bundle)))
                      = document_data.author (document.data response)))"
  unfolding getStaticProps_found [OF assms]
  by (cases "document_data.banner (document.data response)")
    (simp_all add: listed_fields_def)

theorem banner_absent_fails_witness:
  "snd (getStaticProps (content_service sample_store) (sample_ctx ''sem-banner'')) = Inl TypeError
   \<and> (\<exists>bundle.
         snd (getStaticProps (content_service sample_store) (sample_ctx ''primeiro''))
           = Inr (Props bundle)
         \<and> subtitle (data (post (props bundle))) = None
         \<and> author (data (post (props bundle))) = None)"
proof -
  have "document_data.banner (document.data
      (sample_document ''YD4'' ''posts'' ''sem-banner'' ''2021-04-10T12:00:00+0000'' None)) = None"
    by (simp add: sample_document_def)
  with banner_absent_fails [OF sample_found_sem_banner]
  have "snd (getStaticProps (content_service sample_store) (sample_ctx ''sem-banner'')) = Inl TypeError"
    by blast
  moreover
  have "document_data.banner (document.data
      (sample_document ''YA1'' ''posts'' ''primeiro'' ''2021-01-10T12:00:00+0000'' (Some sample_image)))
      = Some sample_image"
    by (simp add: sample_document_def)
  with banner_absent_fails [OF sample_found_primeiro]
  have "\<exists>bundle.
         snd (getStaticProps (content_service sample_store) (sample_ctx ''primeiro''))
           = Inr (Props bundle)
         \<and> subtitle (data (post (props bundle))) = None
         \<and> author (data (post (props bundle))) = None"
    by (simp add: sample_document_def)
  ultimately show ?thesis by blast
qed

lemma neighbour_reference_cong:
  "list_all2 same_reference ds ds' \<Longrightarrow> neighbour_reference ds = neighbour_reference ds'"
  by (cases ds; cases ds') (simp_all add: neighbour_reference_def same_reference_def)

lemma listed_fields_cong:
  assumes "same_listed_fields d d'"
    and "document_data.banner (document.data d) = Some img"
  shows "\<exists>img'. document_data.banner (document.data d') = Some img'
           \<and> listed_fields d' (image.url img') = listed_fields d (image.url img)"
  using assms
  by (cases "document_data.banner (document.data d')")
    (simp_all add: same_listed_fields_def listed_fields_def)

text \<open>
  Claim C8: the post of the props bundle holds the uid, the two publication dates, title,
  subtitle, author, content blocks and the banner URL of the found document; a neighbour
  holds only uid and title, every other field absent. Nothing else reaches the bundle: a
  content service whose answers agree on these fields, whatever the other fields are,
  yields the same bundle.
\<close>

theorem props_copy_listed_fields:
  assumes "getByUID prismic ''posts'' (slug (params ctx)) (by_uid_options ctx) = Some response"
    and "document_data.banner (document.data response) = Some img"
    and "getByUID prismic' ''posts'' (slug (params ctx)) (by_uid_options ctx) = Some response'"
    and "same_listed_fields response response'"
    and "list_all2 same_reference
           (results (query prismic posts_only
              (neighbour_options ctx response ''[document.first_publication_date desc]'')))
           (results (query prismic' posts_only
              (neighbour_options ctx response' ''[document.first_publication_date desc]'')))"
    and "list_all2 same_reference
           (results (query prismic posts_only
              (neighbour_options ctx response ''[document.first_publication_date]'')))
           (results (query prismic' posts_only
              (neighbour_options ctx response' ''[document.first_publication_date]'')))"
  shows "\<exists>bundle.
           snd (getStaticProps prismic ctx) = Inr (Props bundle)
           \<and> post (props bundle)
               = \<lparr>first_publication_date = document.first_publication_date response,
                  last_publication_date = document.last_publication_date response,
                  uid = document.uid response,
                  data = \<lparr>title = document_data.title (document.data response),
                          subtitle = document_data.subtitle (document.data response),
                          banner = Some \<lparr>url = image.url img\<rparr>,
                          author = document_data.author (document.data response),
                          content = document_data.content (document.data response)\<rparr>\<rparr>
           \<and> previousPost (props bundle)
               = neighbour_reference (results (query prismic posts_only
                   (neighbour_options ctx response ''[document.first_publication_date desc]'')))
           \<and> nextPost (props bundle)
               = neighbour_reference (results (query prismic posts_only
                   (neighbour_options ctx response ''[document.first_publication_date]'')))
           \<and> (\<forall>n. previousPost (props bundle) = Some n \<or> nextPost (props bundle) = Some n \<longrightarrow>
                 first_publication_date n = None \<and> last_publication_date n = None
                 \<and> subtitle (data n) = None \<and> banner (data n) = None
                 \<and> author (data n) = None \<and> content (data n) = None)
           \<and> snd (getStaticProps prismic' ctx) = Inr (Props bundle)"
proof -
  from listed_fields_cong [OF assms(4,2)] obtain img'
    where i: "document_data.banner (document.data response') = Some img'"
      and l: "listed_fields response' (image.url img') = listed_fields response (image.url img)"
    by blast
  have n: "neighbour_reference ds = Some n \<Longrightarrow>
           first_publication_date n = None \<and> last_publication_date n = None
           \<and> subtitle (data n) = None \<and> banner (data n) = None
           \<and> author (data n) = None \<and> content (data n) = None" for ds n
    by (cases ds) (auto simp add: neighbour_reference_def)
  show ?thesis
    unfolding getStaticProps_found [OF assms(1)] getStaticProps_found [OF assms(3)]
    using l n neighbour_reference_cong [OF assms(5)] neighbour_reference_cong [OF assms(6)]
    by (simp add: assms(2) i listed_fields_def)
qed

theorem props_copy_listed_fields_witness:
  "snd (getStaticProps (content_service (map relabelled sample_store)) (sample_ctx ''segundo''))
     = snd (getStaticProps (content_service sample_store) (sample_ctx ''segundo''))
   \<and> (\<exists>bundle.
         snd (getStaticProps (content_service sample_store) (sample_ctx ''segundo''))
           = Inr (Props bundle)
         \<and> uid (post (props bundle)) = Some ''segundo''
         \<and> banner (data (post (props bundle)))
             = Some \<lparr>url = ''https://images.example/banner.png''\<rparr>)"
proof -
  have b: "document_data.banner (document.data
      (sample_document ''YB2'' ''posts'' ''segundo'' ''2021-02-10T12:00:00+0000'' (Some sample_image)))
      = Some sample_image"
    by (simp add: sample_document_def)
  have s: "same_listed_fields
      (sample_document ''YB2'' ''posts'' ''segundo'' ''2021-02-10T12:00:00+0000'' (Some sample_image))
      (relabelled (sample_document ''YB2'' ''posts'' ''segundo'' ''2021-02-10T12:00:00+0000'' (Some sample_image)))"
    by (simp add: same_listed_fields_def relabelled_def sample_document_def)
  have p: "list_all2 same_reference
      (results (query (content_service sample_store) posts_only
         (neighbour_options (sample_ctx ''segundo'')
            (sample_document ''YB2'' ''posts'' ''segundo'' ''2021-02-10T12:00:00+0000'' (Some sample_image))
            ''[document.first_publication_date desc]'')))
      (results (query (content_service (map relabelled sample_store)) posts_only
         (neighbour_options (sample_ctx ''segundo'')
            (relabelled (sample_document ''YB2'' ''posts'' ''segundo'' ''2021-02-10T12:00:00+0000'' (Some sample_image)))
            ''[document.first_publication_date desc]'')))"
    by code_simp
  have n: "list_all2 same_reference
      (results (query (content_service sample_store) posts_only
         (neighbour_options (sample_ctx ''segundo'')
            (sample_document ''YB2'' ''posts'' ''segundo'' ''2021-02-10T12:00:00+0000'' (Some sample_image))
            ''[document.first_publication_date]'')))
      (results (query (content_service (map relabelled sample_store)) posts_only
         (neighbour_options (sample_ctx ''segundo'')
            (relabelled (sample_document ''YB2'' ''posts'' ''segundo'' ''2021-02-10T12:00:00+0000'' (Some sample_image)))
            ''[document.first_publication_date]'')))"
    by code_simp
  from props_copy_listed_fields [OF sample_found_segundo b sample_relabelled_found s p n]
  show ?thesis
    by (auto simp add: sample_document_def sample_image_def)
qed

section \<open>The component: proofs\<close>

lemma Post_dates:
  assumes "\<not> isFallback (useRouter rt)"
    and "content (data (post p)) = Some cs"
    and "banner (data (post p)) = Some b"
  shows "\<exists>v. Post rt p = Inr (Page v)
           \<and> date_label v
               = format rt (newDate rt (first_publication_date (post p))) ''dd MMM yyyy'' ptBR
           \<and> infoUpdate v
               = format rt (newDate rt (first_publication_date (post p))) edited_pattern ptBR"
  using assms by (simp add: Post_def date_pattern_def)

lemma Post_ignores_last_publication_date:
  "Post rt (p\<lparr>post := (post p)\<lparr>last_publication_date := d\<rparr>\<rparr>) = Post rt p"
  by (simp add: Post_def split: option.splits)

text \<open>
  Claim C5: for every rendered post, the date label is the first publication date in the
  format \<^verbatim>\<open>dd MMM yyyy\<close> under the pt-BR locale, and the line that reads as an edit date
  formats the same first publication date, under the same locale, with the pattern
  \<^verbatim>\<open>'* editado em 'dd MMM yyyy', \<close>\<open>\<dots>\<close>\<^verbatim>\<open>s 'HH:mm\<close> (the quote is the byte 0x27, the accented
  letter the bytes 0xC3 0xA0); the last publication date is not used: whatever it is, the
  page is the same.
\<close>

theorem dates_from_first_publication:
  assumes "\<not> isFallback (useRouter rt)"
    and "content (data (post p)) = Some cs"
    and "banner (data (post p)) = Some b"
  shows "\<exists>v. Post rt p = Inr (Page v)
           \<and> date_label v
               = format rt (newDate rt (first_publication_date (post p))) ''dd MMM yyyy'' ptBR
           \<and> infoUpdate v
               = format rt (newDate rt (first_publication_date (post p)))
                   ([CHR 0x27] @ ''* editado em '' @ [CHR 0x27] @ ''dd MMM yyyy'' @ [CHR 0x27] @ '', ''
                     @ [CHR 0xC3, CHR 0xA0] @ ''s '' @ [CHR 0x27] @ ''HH:mm'')
                   ptBR
           \<and> (\<forall>d. Post rt (p\<lparr>post := (post p)\<lparr>last_publication_date := d\<rparr>\<rparr>)
                    = Inr (Page v))"
  using Post_dates [OF assms]
  by (auto simp add: Post_ignores_last_publication_date edited_pattern_def)

theorem dates_from_first_publication_witness:
  "\<exists>v. Post sample_runtime (sample_props bare_heading) = Inr (Page v)
      \<and> date_label v = ''dd MMM yyyy <- 2021-03-25T19:25:28+0000''
      \<and> infoUpdate v
          = [CHR 0x27] @ ''* editado em '' @ [CHR 0x27] @ ''dd MMM yyyy'' @ [CHR 0x27] @ '', ''
              @ [CHR 0xC3, CHR 0xA0] @ ''s '' @ [CHR 0x27] @ ''HH:mm''
              @ '' <- 2021-03-25T19:25:28+0000''
      \<and> Post sample_runtime
            ((sample_props bare_heading)
               \<lparr>post := (post (sample_props bare_heading))\<lparr>last_publication_date := None\<rparr>\<rparr>)
          = Inr (Page v)"
proof -
  from dates_from_first_publication [OF sample_not_fallback sample_content sample_banner]
  obtain v where "Post sample_runtime (sample_props bare_heading) = Inr (Page v)"
    and "date_label v = format sample_runtime
           (newDate sample_runtime (first_publication_date (post (sample_props bare_heading))))
           ''dd MMM yyyy'' ptBR"
    and "infoUpdate v = format sample_runtime
           (newDate sample_runtime (first_publication_date (post (sample_props bare_heading))))
           ([CHR 0x27] @ ''* editado em '' @ [CHR 0x27] @ ''dd MMM yyyy'' @ [CHR 0x27] @ '', ''
                     @ [CHR 0xC3, CHR 0xA0] @ ''s '' @ [CHR 0x27] @ ''HH:mm'')
           ptBR"
    and "\<forall>d. Post sample_runtime
            ((sample_props bare_heading)
               \<lparr>post := (post (sample_props bare_heading))\<lparr>last_publication_date := d\<rparr>\<rparr>)
          = Inr (Page v)"
    by blast
  then show ?thesis
    by (simp add: sample_runtime_def sample_props_def template_string_def)
qed

lemma Post_navigation:
  assumes "Post rt p = Inr (Page v)"
  shows "flexDirection (postNavigation v)
           = (case previousPost p of None \<Rightarrow> ''row-reverse'' | Some _ \<Rightarrow> ''row'')"
    and "(previous_link (postNavigation v) = None) = (previousPost p = None)"
    and "(next_link (postNavigation v) = None) = (nextPost p = None)"
  using assms by (auto simp add: Post_def split: if_splits option.splits)

text \<open>
  Claim C6: when the query for the earlier-published neighbour of a document returns
  nothing, \<open>previousPost\<close> is null, the rendered navigation has no link to a previous post
  and its flex direction is \<^verbatim>\<open>row-reverse\<close>; when it returns a document, the link is
  rendered and the direction is \<^verbatim>\<open>row\<close>. The page renders for a document with content and
  banner.
\<close>

theorem navigation_direction:
  assumes "getByUID prismic ''posts'' (slug (params ctx)) (by_uid_options ctx) = Some response"
    and "document_data.banner (document.data response) = Some img"
    and "document_data.content (document.data response) = Some cs"
    and "\<not> isFallback (useRouter rt)"
    and "earlier = results (query prismic [At ''document.type'' ''posts'']
           (neighbour_options ctx response ''[document.first_publication_date desc]''))"
  shows "\<exists>bundle v.
           snd (getStaticProps prismic ctx) = Inr (Props bundle)
           \<and> Post rt (props bundle) = Inr (Page v)
           \<and> (earlier = [] \<longrightarrow>
                 previousPost (props bundle) = None
                 \<and> previous_link (postNavigation v) = None
                 \<and> flexDirection (postNavigation v) = ''row-reverse'')
           \<and> (earlier \<noteq> [] \<longrightarrow>
                 previousPost (props bundle) \<noteq> None
                 \<and> previous_link (postNavigation v) \<noteq> None
                 \<and> flexDirection (postNavigation v) = ''row'')"
proof -
  define pb where "pb =
     \<lparr>props =
        \<lparr>post = listed_fields response (image.url img),
         previousPost = neighbour_reference earlier,
         nextPost = neighbour_reference (results (query prismic posts_only
            (neighbour_options ctx response ''[document.first_publication_date]''))),
         preview = (case static_props_ctx.preview ctx of None \<Rightarrow> False | Some b \<Rightarrow> b)\<rparr>,
      revalidate = 300\<rparr>"
  have g: "snd (getStaticProps prismic ctx) = Inr (Props pb)"
    unfolding getStaticProps_found [OF assms(1)] pb_def assms(5)
    by (simp add: assms(2) posts_only_def)
  have c: "content (data (post (props pb))) = Some cs"
    by (simp add: pb_def listed_fields_def assms(3))
  have b: "banner (data (post (props pb))) = Some \<lparr>url = image.url img\<rparr>"
    by (simp add: pb_def listed_fields_def)
  from Post_renders [OF assms(4) c b] obtain v
    where v: "Post rt (props pb) = Inr (Page v)"
    by blast
  note d = Post_navigation(1) [OF v] and l = Post_navigation(2) [OF v]
  have "earlier = [] \<longrightarrow>
          previousPost (props pb) = None \<and> previous_link (postNavigation v) = None
          \<and> flexDirection (postNavigation v) = ''row-reverse''"
    unfolding d l by (cases earlier) (simp_all add: pb_def neighbour_reference_def)
  moreover have "earlier \<noteq> [] \<longrightarrow>
          previousPost (props pb) \<noteq> None \<and> previous_link (postNavigation v) \<noteq> None
          \<and> flexDirection (postNavigation v) = ''row''"
    unfolding d l by (cases earlier) (simp_all add: pb_def neighbour_reference_def)
  ultimately show ?thesis using g v by blast
qed

theorem navigation_direction_witness:
  "(\<exists>bundle v.
      snd (getStaticProps (content_service sample_store) (sample_ctx ''primeiro''))
        = Inr (Props bundle)
      \<and> Post sample_runtime (props bundle) = Inr (Page v)
      \<and> previousPost (props bundle) = None
      \<and> previous_link (postNavigation v) = None
      \<and> flexDirection (postNavigation v) = ''row-reverse'')
   \<and> (\<exists>bundle v.
      snd (getStaticProps (content_service sample_store) (sample_ctx ''segundo''))
        = Inr (Props bundle)
      \<and> Post sample_runtime (props bundle) = Inr (Page v)
      \<and> previousPost (props bundle) \<noteq> None
      \<and> previous_link (postNavigation v) \<noteq> None
      \<and> flexDirection (postNavigation v) = ''row'')"
proof -
  from navigation_direction [OF sample_found_primeiro sample_document_banner
      sample_document_content sample_not_fallback sample_previous_of_primeiro [symmetric]]
  have "\<exists>bundle v.
      snd (getStaticProps (content_service sample_store) (sample_ctx ''primeiro''))
        = Inr (Props bundle)
      \<and> Post sample_runtime (props bundle) = Inr (Page v)
      \<and> previousPost (props bundle) = None
      \<and> previous_link (postNavigation v) = None
      \<and> flexDirection (postNavigation v) = ''row-reverse''"
    by blast
  moreover
  have "[sample_document ''YA1'' ''posts'' ''primeiro'' ''2021-01-10T12:00:00+0000'' (Some sample_image)] \<noteq> []"
    by simp
  with navigation_direction [OF sample_found_segundo sample_document_banner
      sample_document_content sample_not_fallback sample_previous_of_segundo [symmetric]]
  have "\<exists>bundle v.
      snd (getStaticProps (content_service sample_store) (sample_ctx ''segundo''))
        = Inr (Props bundle)
      \<and> Post sample_runtime (props bundle) = Inr (Page v)
      \<and> previousPost (props bundle) \<noteq> None
      \<and> previous_link (postNavigation v) \<noteq> None
      \<and> flexDirection (postNavigation v) = ''row''"
    by blast
  ultimately show ?thesis by blast
qed


text \<open>
  Two renders whose clock readings agree block by block render the same page, whatever
  the hash is.
\<close>

lemma same_reading_same_render:
  assumes "\<And>k. current_time_value (once k) = current_time_value (again k)"
  shows "Post (rendered_at rt once) p = Post (rendered_at rt again) p"
  using assms by (simp add: rendered_at_def)













section \<open>The path enumerator: proofs\<close>

text \<open>
  Claim C7: path enumeration sends one query, for the documents of type posts with page
  size 100 and an empty list of fields to fetch, and returns one route parameter for every
  document of the answer, its uid as slug, with fallback enabled. Over a content set with
  \<open>K \<le> 100\<close> posts, served by the reference content service, these are exactly \<open>K\<close> paths,
  one for every post of the set.
\<close>

theorem path_enumeration:
  assumes "K = length (filter (\<lambda>d. doc_type d = ''posts'') store)"
    and "K \<le> 100"
  shows "fst (getStaticPaths prismic) = [Query [At ''document.type'' ''posts''] enumeration_options]
         \<and> fetch enumeration_options = Some [] \<and> pageSize enumeration_options = Some 100
         \<and> paths (snd (getStaticPaths prismic))
             = map (\<lambda>d. \<lparr>params = \<lparr>slug = document.uid d\<rparr>\<rparr>)
                 (results (query prismic [At ''document.type'' ''posts''] enumeration_options))
         \<and> fallback (snd (getStaticPaths prismic))
         \<and> paths (snd (getStaticPaths (content_service store)))
             = map (\<lambda>d. \<lparr>params = \<lparr>slug = document.uid d\<rparr>\<rparr>)
                 (filter (\<lambda>d. doc_type d = ''posts'') store)
         \<and> length (paths (snd (getStaticPaths (content_service store)))) = K
         \<and> fallback (snd (getStaticPaths (content_service store)))"
proof -
  have "results (query (content_service store) [At ''document.type'' ''posts''] enumeration_options)
      = take 100 (filter (\<lambda>d. doc_type d = ''posts'') store)"
    by (simp add: content_service_def enumeration_options_def page_def after_cursor_def
        ordered_by_def satisfies_def)
  also have "\<dots> = filter (\<lambda>d. doc_type d = ''posts'') store"
    using assms by simp
  finally have r: "results (query (content_service store) [At ''document.type'' ''posts'']
      enumeration_options) = filter (\<lambda>d. doc_type d = ''posts'') store" .
  have g: "getStaticPaths c =
      ([Query [At ''document.type'' ''posts''] enumeration_options],
       \<lparr>paths = map (\<lambda>d. \<lparr>params = \<lparr>slug = document.uid d\<rparr>\<rparr>)
                  (results (query c [At ''document.type'' ''posts''] enumeration_options)),
        fallback = True\<rparr>)" for c
    by (simp add: getStaticPaths_def enumeration_options_def Let_def)
  show ?thesis
    unfolding g r by (simp add: assms(1)) (simp add: enumeration_options_def)
qed

theorem path_enumeration_witness:
  "paths (snd (getStaticPaths (content_service sample_store)))
     = [\<lparr>params = \<lparr>slug = Some ''segundo''\<rparr>\<rparr>, \<lparr>params = \<lparr>slug = Some ''terceiro''\<rparr>\<rparr>,
        \<lparr>params = \<lparr>slug = Some ''primeiro''\<rparr>\<rparr>, \<lparr>params = \<lparr>slug = Some ''sem-banner''\<rparr>\<rparr>]
   \<and> length (paths (snd (getStaticPaths (content_service sample_store)))) = 4
   \<and> fallback (snd (getStaticPaths (content_service sample_store)))"
proof -
  have k: "(4 :: nat) = length (filter (\<lambda>d. doc_type d = ''posts'') sample_store)"
    by (simp add: sample_store_def sample_document_def)
  have "(4 :: nat) \<le> 100" by simp
  from path_enumeration [OF k this]
  have p: "paths (snd (getStaticPaths (content_service sample_store)))
             = map (\<lambda>d. \<lparr>params = \<lparr>slug = document.uid d\<rparr>\<rparr>)
                 (filter (\<lambda>d. doc_type d = ''posts'') sample_store)"
    and l: "length (paths (snd (getStaticPaths (content_service sample_store)))) = 4"
    and f: "fallback (snd (getStaticPaths (content_service sample_store)))"
    by blast+
  have "map (\<lambda>d. \<lparr>params = \<lparr>slug = document.uid d\<rparr>\<rparr>)
          (filter (\<lambda>d. doc_type d = ''posts'') sample_store)
      = [\<lparr>params = \<lparr>slug = Some ''segundo''\<rparr>\<rparr>, \<lparr>params = \<lparr>slug = Some ''terceiro''\<rparr>\<rparr>,
         \<lparr>params = \<lparr>slug = Some ''primeiro''\<rparr>\<rparr>, \<lparr>params = \<lparr>slug = Some ''sem-banner''\<rparr>\<rparr>]"
    by (simp add: sample_store_def sample_document_def)
  with p l f show ?thesis by simp
qed

end
